theory Spec2Isabelle
  imports Main "HOL-Library.Sublist"
begin

section \<open>Configuration (lib/config.ts)\<close>

text \<open>
  The static tables of the configuration module. The middleware imports only
  \<open>JWT_CONFIG\<close> and \<open>PROTECTED_PATHS\<close>; the two API route lists are declared by the
  configuration module and used by no code of the gate.
\<close>

definition ACCESS_TOKEN :: string where
  "ACCESS_TOKEN = ''access_token''"

definition REFRESH_TOKEN :: string where
  "REFRESH_TOKEN = ''refresh_token''"

definition PROTECTED_PATHS :: "string list" where
  "PROTECTED_PATHS = [''/dashboard'', ''/profile'', ''/admin'']"

definition PUBLIC_PATHS :: "string list" where
  "PUBLIC_PATHS = [''/'']"

definition PROTECTED_API_ROUTES :: "string list" where
  "PROTECTED_API_ROUTES =
     [''/api/users/profile'', ''/api/users/settings'', ''/api/data'', ''/api/admin'']"

definition PUBLIC_API_ROUTES :: "string list" where
  "PUBLIC_API_ROUTES = [''/api/users/login'', ''/api/users/refresh-token'', ''/api/health'']"

section \<open>The platform as seen by the gate\<close>

text \<open>
  \<open>String.prototype.startsWith\<close>: the receiver begins with the characters of the
  argument.
\<close>

definition startsWith :: "string \<Rightarrow> string \<Rightarrow> bool" where
  "startsWith s p \<longleftrightarrow> take (length p) s = p"

text \<open>
  What \<open>jwtVerify\<close> of the jose library can answer: it resolves to the decoded payload,
  whose \<open>exp\<close> claim is a number or absent, or it throws a value. Of a thrown value the
  handler looks only at whether it is a (non-null) object and at its \<open>code\<close> property.
  The \<open>exp\<close> claim and the clock are whole seconds.
\<close>

datatype js_code = CodeMissing | CodeString string | CodeOther

datatype thrown = NonObject | ErrorObject js_code

record jwt_payload =
  exp :: "int option"

datatype jose_result = JoseVerified jwt_payload | JoseThrows thrown

text \<open>
  What \<open>fetch\<close> of the refresh route can answer: it throws (a transport error), or it
  resolves to a response, of which the gate reads the status class (\<open>ok\<close>) and the
  \<open>set-cookie\<close> header through \<open>headers.get\<close>.
\<close>

record fetch_response =
  status :: nat
  set_cookie :: "string option"

datatype fetch_result = FetchThrows | FetchResolved fetch_response

definition ok :: "fetch_response \<Rightarrow> bool" where
  "ok r \<longleftrightarrow> 200 \<le> status r \<and> status r \<le> 299"

text \<open>
  The world outside the gate during one request: the clock in seconds
  (\<open>Math.floor(Date.now() / 1000)\<close>), the answer of \<open>jwtVerify\<close> to each token under the
  configured secret, and the answer of the refresh route to a \<open>Cookie\<close> header.
\<close>

record env =
  currentTime :: int
  jwtVerify :: "string \<Rightarrow> jose_result"
  fetch_refresh :: "string \<Rightarrow> fetch_result"

text \<open>
  The request: its path, its cookie store (name and value, as parsed by the platform) and
  its raw \<open>cookie\<close> header.
\<close>

record request =
  pathname :: string
  cookies :: "(string \<times> string) list"
  cookie_header :: "string option"

text \<open>
  The responses the code builds: \<open>NextResponse.next()\<close>, possibly with a \<open>set-cookie\<close>
  header set on it, \<open>NextResponse.redirect\<close> to a path of the same origin, and
  \<open>NextResponse.json\<close> with a status, a body and the cookies set on it. The body of a
  JSON response is kept as the data it is built from.
\<close>

datatype fault = AxiosFault | TypeErrorFault | RangeErrorFault

datatype json_body = RefreshDone | RefreshErrorStatus nat | RefreshErrorThrown fault

text \<open>
  A Number that \<open>parseInt\<close> can return: \<open>NaN\<close>, a whole number given by its sign
  (true for minus, so that \<open>-0\<close> is kept apart from \<open>0\<close>) and its magnitude, or an
  infinity with its sign.
\<close>

datatype js_number = NaN | Num bool nat | Infinity bool

record CookieOptions =
  httpOnly :: "bool option"
  secure :: "bool option"
  sameSite :: "string option"
  maxAge :: "js_number option"
  path :: "string option"

record cookie =
  cookie_name :: string
  cookie_value :: string
  cookie_options :: CookieOptions

record json_response =
  json_status :: nat
  json_body :: json_body
  json_cookies :: "cookie list"

datatype next_response =
    NextContinue "string option"
  | NextRedirect string
  | NextJson json_response

section \<open>The gate (middleware.ts)\<close>

record verify_result =
  valid :: bool
  expired :: bool

definition Valid :: verify_result where
  "Valid = \<lparr>valid = True, expired = False\<rparr>"

definition Expired :: verify_result where
  "Expired = \<lparr>valid = False, expired = True\<rparr>"

definition Invalid :: verify_result where
  "Invalid = \<lparr>valid = False, expired = False\<rparr>"

text \<open>
  The test of the handler:
  \<open>error && typeof error === 'object' && 'code' in error && error.code === 'ERR_JWT_EXPIRED'\<close>.
\<close>

fun is_jwt_expired_error :: "thrown \<Rightarrow> bool" where
  "is_jwt_expired_error NonObject = False"
| "is_jwt_expired_error (ErrorObject CodeMissing) = False"
| "is_jwt_expired_error (ErrorObject (CodeString c)) = (c = ''ERR_JWT_EXPIRED'')"
| "is_jwt_expired_error (ErrorObject CodeOther) = False"

text \<open>
  \<open>verifyJWTToken\<close>: \<open>!payload.exp\<close> holds of an absent claim and of the number 0; the
  comparison with the clock is \<open>payload.exp < currentTime\<close>.
\<close>

definition verifyJWTToken :: "env \<Rightarrow> string \<Rightarrow> verify_result" where
  "verifyJWTToken e token =
     (case jwtVerify e token of
        JoseVerified payload \<Rightarrow>
          (case exp payload of
             None \<Rightarrow> \<lparr>valid = False, expired = False\<rparr>
           | Some x \<Rightarrow>
               if x = 0 then \<lparr>valid = False, expired = False\<rparr>
               else if x < currentTime e then \<lparr>valid = False, expired = True\<rparr>
               else \<lparr>valid = True, expired = False\<rparr>)
      | JoseThrows err \<Rightarrow>
          if is_jwt_expired_error err then \<lparr>valid = False, expired = True\<rparr>
          else \<lparr>valid = False, expired = False\<rparr>)"

text \<open>
  Modelled from the spec: \<open>jwtVerify\<close> of the jose library, which the gate imports and
  which is no file of the repository. A token string decodes, or not, to a signed
  structure with a signature that verifies against the shared secret or not, and with an
  expiry claim or none. A decode error and a signature mismatch are failures that are not
  expiry failures; a verified signature with the current time greater than or equal to
  the expiry claim is the expiry failure, thrown under the code \<open>ERR_JWT_EXPIRED\<close> that
  the handler tests for; otherwise the payload is returned.
\<close>

record signed_token =
  signature_verifies :: bool
  expiry_claim :: "int option"

definition jwtVerify_library ::
  "(string \<Rightarrow> signed_token option) \<Rightarrow> int \<Rightarrow> string \<Rightarrow> jose_result" where
  "jwtVerify_library decode now token =
     (case decode token of
        None \<Rightarrow> JoseThrows (ErrorObject (CodeString ''ERR_JWS_INVALID''))
      | Some tok \<Rightarrow>
          if \<not> signature_verifies tok
          then JoseThrows (ErrorObject (CodeString ''ERR_JWS_SIGNATURE_VERIFICATION_FAILED''))
          else
            (case expiry_claim tok of
               None \<Rightarrow> JoseVerified \<lparr>exp = None\<rparr>
             | Some x \<Rightarrow>
                 if x \<le> now then JoseThrows (ErrorObject (CodeString ''ERR_JWT_EXPIRED''))
                 else JoseVerified \<lparr>exp = Some x\<rparr>))"

text \<open>
  \<open>attemptTokenRefresh\<close>: one \<open>fetch\<close> of the refresh route with the request's cookie
  header (\<open>|| ''\<close>); \<open>newCookies || undefined\<close> turns an absent and an empty header into
  \<open>undefined\<close>. The second component is the list of calls made, each recorded by the
  \<open>Cookie\<close> header it sent.
\<close>

record refresh_result =
  success :: bool
  newCookies :: "string option"

definition or_empty :: "string option \<Rightarrow> string" where
  "or_empty h = (case h of None \<Rightarrow> [] | Some s \<Rightarrow> s)"

definition or_undefined :: "string option \<Rightarrow> string option" where
  "or_undefined h = (case h of None \<Rightarrow> None | Some s \<Rightarrow> if s = [] then None else Some s)"

definition attemptTokenRefresh :: "env \<Rightarrow> request \<Rightarrow> refresh_result \<times> string list" where
  "attemptTokenRefresh e req =
     (let sent = or_empty (cookie_header req) in
      (case fetch_refresh e sent of
         FetchResolved refreshResponse \<Rightarrow>
           if ok refreshResponse
           then \<lparr>success = True, newCookies = or_undefined (set_cookie refreshResponse)\<rparr>
           else \<lparr>success = False, newCookies = None\<rparr>
       | FetchThrows \<Rightarrow> \<lparr>success = False, newCookies = None\<rparr>,
       [sent]))"

record auth_result =
  authenticated :: bool
  needsRefresh :: bool
  auth_newCookies :: "string option"

definition isAuthenticated :: "env \<Rightarrow> request \<Rightarrow> auth_result \<times> string list" where
  "isAuthenticated e req =
     (case map_of (cookies req) ACCESS_TOKEN of
        None \<Rightarrow> (\<lparr>authenticated = False, needsRefresh = False, auth_newCookies = None\<rparr>, [])
      | Some accessToken \<Rightarrow>
          (let v = verifyJWTToken e accessToken in
           if valid v
           then (\<lparr>authenticated = True, needsRefresh = False, auth_newCookies = None\<rparr>, [])
           else if expired v
           then (let (refreshResult, calls) = attemptTokenRefresh e req in
                 if success refreshResult
                 then (\<lparr>authenticated = True, needsRefresh = True,
                        auth_newCookies = newCookies refreshResult\<rparr>, calls)
                 else (\<lparr>authenticated = False, needsRefresh = False,
                        auth_newCookies = None\<rparr>, calls))
           else (\<lparr>authenticated = False, needsRefresh = False, auth_newCookies = None\<rparr>, [])))"

definition isProtectedPage :: "string \<Rightarrow> bool" where
  "isProtectedPage p = list_ex (\<lambda>protectedPath. startsWith p protectedPath) PROTECTED_PATHS"

text \<open>
  \<open>middleware\<close>: the response and the renewal calls made on the way. The login page is
  the root path of the request's origin.
\<close>

definition middleware :: "env \<Rightarrow> request \<Rightarrow> next_response \<times> string list" where
  "middleware e req =
     (if \<not> isProtectedPage (pathname req) then (NextContinue None, [])
      else
        (let (authResult, calls) = isAuthenticated e req in
         if \<not> authenticated authResult then (NextRedirect ''/'', calls)
         else if needsRefresh authResult \<and> auth_newCookies authResult \<noteq> None
         then (NextContinue (auth_newCookies authResult), calls)
         else (NextContinue None, calls)))"

text \<open>The outcomes of the decision table, read off a response.\<close>

fun is_admit :: "next_response \<Rightarrow> bool" where
  "is_admit (NextContinue _) = True"
| "is_admit _ = False"

fun is_redirect :: "next_response \<Rightarrow> bool" where
  "is_redirect (NextRedirect _) = True"
| "is_redirect _ = False"

fun is_unauthorized :: "next_response \<Rightarrow> bool" where
  "is_unauthorized (NextJson r) = (json_status r = 401)"
| "is_unauthorized _ = False"

section \<open>The renewal proxy (api/users/refresh-token/route.ts)\<close>

subsection \<open>Strings of the platform\<close>

text \<open>
  A header string is a list of code units below 256. \<open>trim\<close> removes white space and
  line terminators at both ends; \<open>toLowerCase\<close> maps the capital letters of this range
  to their small letters.
\<close>

definition is_space :: "char \<Rightarrow> bool" where
  "is_space c \<longleftrightarrow> (of_char c :: nat) \<in> {9, 10, 11, 12, 13, 32, 160}"

definition trim :: "string \<Rightarrow> string" where
  "trim s = rev (dropWhile is_space (rev (dropWhile is_space s)))"

definition lower_char :: "char \<Rightarrow> char" where
  "lower_char c =
     (let n = (of_char c :: nat) in
      if (65 \<le> n \<and> n \<le> 90) \<or> (192 \<le> n \<and> n \<le> 214) \<or> (216 \<le> n \<and> n \<le> 222)
      then char_of (n + 32) else c)"

definition toLowerCase :: "string \<Rightarrow> string" where
  "toLowerCase s = map lower_char s"

text \<open>
  \<open>s.split(sep)\<close> for a separator of one character. The array it returns is never
  empty: the result is its first element and the list of the others. An array pattern
  \<open>[a, b]\<close> binds \<open>b\<close> to the second element, or to \<open>undefined\<close> when there is none.
\<close>

fun split :: "char \<Rightarrow> string \<Rightarrow> string \<times> string list" where
  "split sep [] = ([], [])"
| "split sep (c # cs) =
     (let (p, ps) = split sep cs in if c = sep then ([], p # ps) else (c # p, ps))"

definition second :: "'a list \<Rightarrow> 'a option" where
  "second rest = (case rest of [] \<Rightarrow> None | v # _ \<Rightarrow> Some v)"

text \<open>
  \<open>parseInt\<close> with no radix: leading white space is skipped, then a sign, then a
  \<open>0x\<close> or \<open>0X\<close> prefix selects radix 16; the longest run of digits of the radix is
  read, and no digit at all gives \<open>NaN\<close>, as the argument \<open>undefined\<close> does. The result
  is the Number value of the integer read: a double, that is, the integer itself below
  \<open>2^53\<close>, and above it the nearest integer with 53 significant bits (a tie goes to the
  even one), or an infinity from \<open>2^1024\<close> on. (In radix 10 an implementation may
  replace the digits after the 20th significant one by zeros; the model reads them all.)
\<close>

fun bit_length :: "nat \<Rightarrow> nat" where
  "bit_length n = (if n = 0 then 0 else Suc (bit_length (n div 2)))"

definition to_double :: "nat \<Rightarrow> nat option" where
  "to_double n =
     (if n < 2 ^ 53 then Some n
      else
        (let e = bit_length n - 53;
             q = n div 2 ^ e;
             r = n mod 2 ^ e;
             h = 2 ^ (e - 1);
             q' = (if h < r \<or> (r = h \<and> odd q) then q + 1 else q)
         in if 2 ^ 1024 \<le> q' * 2 ^ e then None else Some (q' * 2 ^ e)))"

definition digit_value :: "char \<Rightarrow> nat option" where
  "digit_value c =
     (let n = (of_char c :: nat) in
      if 48 \<le> n \<and> n \<le> 57 then Some (n - 48)
      else if 97 \<le> n \<and> n \<le> 122 then Some (n - 87)
      else if 65 \<le> n \<and> n \<le> 90 then Some (n - 55)
      else None)"

definition is_digit :: "nat \<Rightarrow> char \<Rightarrow> bool" where
  "is_digit R c = (case digit_value c of None \<Rightarrow> False | Some d \<Rightarrow> d < R)"

definition digits_value :: "nat \<Rightarrow> string \<Rightarrow> nat" where
  "digits_value R ds =
     foldl (\<lambda>acc c. acc * R + (case digit_value c of None \<Rightarrow> 0 | Some d \<Rightarrow> d)) 0 ds"

definition parseInt :: "string option \<Rightarrow> js_number" where
  "parseInt val =
     (case val of
        None \<Rightarrow> NaN
      | Some s \<Rightarrow>
          (let s1 = dropWhile is_space s;
               negative = (take 1 s1 = ''-'');
               s2 = (if take 1 s1 = ''-'' \<or> take 1 s1 = ''+'' then drop 1 s1 else s1);
               hex = (take 2 s2 = ''0x'' \<or> take 2 s2 = ''0X'');
               R = (if hex then 16 else 10);
               s3 = (if hex then drop 2 s2 else s2);
               ds = takeWhile (is_digit R) s3
           in if ds = [] then NaN
              else (case to_double (digits_value R ds) of
                      None \<Rightarrow> Infinity negative
                    | Some k \<Rightarrow> Num negative k)))"

subsection \<open>The handler\<close>

text \<open>
  What \<open>axios.post\<close> to the issuing service can answer: it rejects (a transport error
  or a status it does not accept), or it resolves to a response with a status and,
  possibly, an array of \<open>set-cookie\<close> headers.
\<close>

datatype axios_result = AxiosRejected | AxiosResolved nat "string list option"

definition no_options :: CookieOptions where
  "no_options = \<lparr>httpOnly = None, secure = None, sameSite = None, maxAge = None, path = None\<rparr>"

text \<open>The body of \<open>options.forEach\<close>: one attribute of a directive.\<close>

definition set_option :: "CookieOptions \<Rightarrow> string \<Rightarrow> CookieOptions" where
  "set_option cookieOptions option =
     (let (key, rest) = split CHR ''='' (trim option);
          val = second rest;
          lowerKey = toLowerCase key
      in if lowerKey = ''httponly'' then cookieOptions\<lparr>httpOnly := Some True\<rparr>
         else if lowerKey = ''secure'' then cookieOptions\<lparr>secure := Some True\<rparr>
         else if lowerKey = ''samesite''
         then cookieOptions\<lparr>sameSite :=
                Some (case val of
                        None \<Rightarrow> ''lax''
                      | Some v \<Rightarrow> if toLowerCase v = [] then ''lax'' else toLowerCase v)\<rparr>
         else if lowerKey = ''max-age'' then cookieOptions\<lparr>maxAge := Some (parseInt val)\<rparr>
         else if lowerKey = ''path'' then cookieOptions\<lparr>path := val\<rparr>
         else cookieOptions)"

text \<open>
  The body of \<open>setCookieHeaders.forEach\<close>: the cookie handed to
  \<open>response.cookies.set\<close> for one directive. \<open>value.trim()\<close> throws a TypeError when
  the first segment has no \<open>=\<close>.
\<close>

definition forward_cookie :: "string \<Rightarrow> fault + cookie" where
  "forward_cookie cookieHeader =
     (let (cookieNameValue, options) = split CHR '';'' cookieHeader;
          (name, rest) = split CHR ''='' cookieNameValue;
          value = second rest;
          cookieOptions = foldl set_option no_options options
      in case value of
           None \<Rightarrow> Inl TypeErrorFault
         | Some v \<Rightarrow>
             Inr \<lparr>cookie_name = trim name, cookie_value = trim v,
                  cookie_options = cookieOptions\<rparr>)"

fun forward_cookies :: "string list \<Rightarrow> cookie list \<Rightarrow> fault + cookie list" where
  "forward_cookies [] jar = Inr jar"
| "forward_cookies (cookieHeader # others) jar =
     (case forward_cookie cookieHeader of
        Inl f \<Rightarrow> Inl f
      | Inr c \<Rightarrow> forward_cookies others (jar @ [c]))"

text \<open>
  \<open>NextResponse.json(body, {status})\<close>: the response constructor of the platform
  refuses a status outside 200..599 (RangeError) and a body with a null-body status
  (TypeError).
\<close>

definition NextResponse_json :: "json_body \<Rightarrow> nat \<Rightarrow> fault + json_response" where
  "NextResponse_json body s =
     (if s < 200 \<or> 599 < s then Inl RangeErrorFault
      else if s \<in> {204, 205, 304} then Inl TypeErrorFault
      else Inr \<lparr>json_status = s, json_body = body, json_cookies = []\<rparr>)"

text \<open>
  \<open>POST\<close>: the \<open>try\<close> block, then the handler as a whole, whose \<open>catch\<close> turns every
  fault into a response with status 500. The request contributes its \<open>cookie\<close> header.
\<close>

definition POST_try :: "(string \<Rightarrow> axios_result) \<Rightarrow> string option \<Rightarrow> fault + json_response" where
  "POST_try axios_post request_cookie =
     (case axios_post (or_empty request_cookie) of
        AxiosRejected \<Rightarrow> Inl AxiosFault
      | AxiosResolved res_status res_set_cookie \<Rightarrow>
          if res_status \<noteq> 200 then NextResponse_json (RefreshErrorStatus res_status) res_status
          else
            (case NextResponse_json RefreshDone 200 of
               Inl f \<Rightarrow> Inl f
             | Inr response \<Rightarrow>
                 (case res_set_cookie of
                    None \<Rightarrow> Inr response
                  | Some setCookieHeaders \<Rightarrow>
                      (case forward_cookies setCookieHeaders (json_cookies response) of
                         Inl f \<Rightarrow> Inl f
                       | Inr jar \<Rightarrow> Inr (response\<lparr>json_cookies := jar\<rparr>)))))"

definition POST :: "(string \<Rightarrow> axios_result) \<Rightarrow> string option \<Rightarrow> json_response" where
  "POST axios_post request_cookie =
     (case POST_try axios_post request_cookie of
        Inl f \<Rightarrow> \<lparr>json_status = 500, json_body = RefreshErrorThrown f, json_cookies = []\<rparr>
      | Inr response \<Rightarrow> response)"

text \<open>
  The gate's \<open>fetch\<close> of \<open>/api/users/refresh-token\<close> is answered by \<open>POST\<close>. How the
  platform renders the cookies set on the response into what \<open>headers.get('set-cookie')\<close>
  returns is a parameter.
\<close>

definition refresh_route ::
  "(string \<Rightarrow> axios_result) \<Rightarrow> (cookie list \<Rightarrow> string option) \<Rightarrow> string \<Rightarrow> fetch_result" where
  "refresh_route axios_post get_set_cookie sent =
     (let response = POST axios_post (Some sent) in
      FetchResolved \<lparr>status = json_status response,
                     set_cookie = get_set_cookie (json_cookies response)\<rparr>)"

section \<open>Constant answers of the outside world\<close>

definition jwt_answers :: "jose_result \<Rightarrow> string \<Rightarrow> jose_result" where
  "jwt_answers r token = r"

definition fetch_answers :: "fetch_result \<Rightarrow> string \<Rightarrow> fetch_result" where
  "fetch_answers r sent = r"

definition axios_answers :: "axios_result \<Rightarrow> string \<Rightarrow> axios_result" where
  "axios_answers r sent = r"

definition decode_answers :: "signed_token option \<Rightarrow> string \<Rightarrow> signed_token option" where
  "decode_answers r token = r"

definition header_answers :: "string option \<Rightarrow> cookie list \<Rightarrow> string option" where
  "header_answers r jar = r"

section \<open>Directives, in the words of the claims\<close>

text \<open>
  The parts of a \<open>Set-Cookie\<close> header named by the claims: its first segment up to the
  first \<open>;\<close>, the text before the first \<open>=\<close>, the text between the first and the
  second \<open>=\<close>, its attribute segments, the key of an attribute (trimmed, in lower
  case), and the five keys that are carried over.
\<close>

definition first_segment :: "string \<Rightarrow> string" where
  "first_segment h = takeWhile (\<lambda>c. c \<noteq> CHR '';'') h"

definition before_first_equals :: "string \<Rightarrow> string" where
  "before_first_equals s = takeWhile (\<lambda>c. c \<noteq> CHR ''='') s"

definition after_first_equals :: "string \<Rightarrow> string" where
  "after_first_equals s = drop 1 (dropWhile (\<lambda>c. c \<noteq> CHR ''='') s)"

definition between_first_and_second_equals :: "string \<Rightarrow> string" where
  "between_first_and_second_equals s = takeWhile (\<lambda>c. c \<noteq> CHR ''='') (after_first_equals s)"

definition attributes :: "string \<Rightarrow> string list" where
  "attributes h = snd (split CHR '';'' h)"

definition attribute_key :: "string \<Rightarrow> string" where
  "attribute_key a = toLowerCase (before_first_equals (trim a))"

definition carried_over :: "string \<Rightarrow> bool" where
  "carried_over a \<longleftrightarrow>
     attribute_key a \<in> set [''httponly'', ''secure'', ''samesite'', ''max-age'', ''path'']"

definition reemitted :: "string \<Rightarrow> cookie" where
  "reemitted h =
     \<lparr>cookie_name = trim (before_first_equals (first_segment h)),
      cookie_value = trim (between_first_and_second_equals (first_segment h)),
      cookie_options = foldl set_option no_options (filter carried_over (attributes h))\<rparr>"

text \<open>
  A directive given by its parts, the header it is written as, and the cookie that
  carries its name, its value and its supported attributes over. An attribute under
  another key is written as it stands.
\<close>

datatype attribute =
    HttpOnly | Secure | SameSite string | MaxAge string | Path string | Other string

record directive =
  d_name :: string
  d_value :: string
  d_attributes :: "attribute list"

fun render_attribute :: "attribute \<Rightarrow> string" where
  "render_attribute HttpOnly = ''HttpOnly''"
| "render_attribute Secure = ''Secure''"
| "render_attribute (SameSite s) = ''SameSite='' @ s"
| "render_attribute (MaxAge m) = ''Max-Age='' @ m"
| "render_attribute (Path p) = ''Path='' @ p"
| "render_attribute (Other a) = a"

definition render :: "directive \<Rightarrow> string" where
  "render d =
     d_name d @ ''='' @ d_value d @ concat (map (\<lambda>a. ''; '' @ render_attribute a) (d_attributes d))"

definition plain :: "string \<Rightarrow> bool" where
  "plain s \<longleftrightarrow> CHR '';'' \<notin> set s \<and> CHR ''='' \<notin> set s \<and> (s = [] \<or> \<not> is_space (last s))"

fun well_formed_attribute :: "attribute \<Rightarrow> bool" where
  "well_formed_attribute HttpOnly = True"
| "well_formed_attribute Secure = True"
| "well_formed_attribute (SameSite s) = (s \<noteq> [] \<and> plain s)"
| "well_formed_attribute (MaxAge m) =
     (m \<noteq> [] \<and> list_all (is_digit 10) m \<and> digits_value 10 m < 2 ^ 53)"
| "well_formed_attribute (Path p) = plain p"
| "well_formed_attribute (Other a) = (CHR '';'' \<notin> set a \<and> \<not> carried_over a)"

definition well_formed :: "directive \<Rightarrow> bool" where
  "well_formed d \<longleftrightarrow>
     plain (d_name d) \<and> trim (d_name d) = d_name d \<and>
     plain (d_value d) \<and> trim (d_value d) = d_value d \<and>
     list_all well_formed_attribute (d_attributes d)"

fun carry :: "CookieOptions \<Rightarrow> attribute \<Rightarrow> CookieOptions" where
  "carry co HttpOnly = co\<lparr>httpOnly := Some True\<rparr>"
| "carry co Secure = co\<lparr>secure := Some True\<rparr>"
| "carry co (SameSite s) = co\<lparr>sameSite := Some (toLowerCase s)\<rparr>"
| "carry co (MaxAge m) = co\<lparr>maxAge := Some (Num False (digits_value 10 m))\<rparr>"
| "carry co (Path p) = co\<lparr>path := Some p\<rparr>"
| "carry co (Other a) = co"

definition carried :: "directive \<Rightarrow> cookie" where
  "carried d =
     \<lparr>cookie_name = d_name d, cookie_value = d_value d,
      cookie_options = foldl carry no_options (d_attributes d)\<rparr>"

section \<open>Properties of the gate\<close>

subsection \<open>Auxiliary facts\<close>

lemma startsWith_iff_prefix: "startsWith s p \<longleftrightarrow> prefix p s"
  unfolding startsWith_def
  by (metis append_eq_conv_conj prefix_def append_take_drop_id)

lemma isProtectedPage_iff:
  "isProtectedPage p \<longleftrightarrow> (\<exists>pp\<in>set PROTECTED_PATHS. startsWith p pp)"
  by (simp add: isProtectedPage_def list_ex_iff)

lemma api_not_protected:
  assumes "startsWith p ''/api''"
  shows "\<not> isProtectedPage p"
proof
  assume "isProtectedPage p"
  then obtain pp where pp: "pp \<in> set PROTECTED_PATHS" and "startsWith p pp"
    by (auto simp add: isProtectedPage_iff)
  then have "prefix pp p" and "prefix ''/api'' p"
    using assms by (simp_all add: startsWith_iff_prefix)
  then have "prefix pp ''/api'' \<or> prefix ''/api'' pp"
    by (rule prefix_same_cases)
  with pp show False
    by (auto simp add: PROTECTED_PATHS_def)
qed

lemma public_api_routes_under_api:
  "pub \<in> set PUBLIC_API_ROUTES \<Longrightarrow> startsWith pub ''/api''"
  by (auto simp add: PUBLIC_API_ROUTES_def startsWith_def)

lemma verify_result_distinct:
  "Valid \<noteq> Expired" "Valid \<noteq> Invalid" "Expired \<noteq> Invalid"
  "Expired \<noteq> Valid" "Invalid \<noteq> Valid" "Invalid \<noteq> Expired"
  by (simp_all add: Valid_def Expired_def Invalid_def)

lemma verifyJWTToken_cases:
  "verifyJWTToken e t = Valid \<or> verifyJWTToken e t = Expired \<or> verifyJWTToken e t = Invalid"
  by (simp add: verifyJWTToken_def Valid_def Expired_def Invalid_def
      split: jose_result.splits option.splits)

lemma verifyJWTToken_library_expiry:
  "jwtVerify e t = JoseThrows (ErrorObject (CodeString ''ERR_JWT_EXPIRED'')) \<Longrightarrow>
   verifyJWTToken e t = Expired"
  by (simp add: verifyJWTToken_def Expired_def)

lemma isAuthenticated_missing:
  "map_of (cookies req) ACCESS_TOKEN = None \<Longrightarrow>
   isAuthenticated e req =
     (\<lparr>authenticated = False, needsRefresh = False, auth_newCookies = None\<rparr>, [])"
  by (simp add: isAuthenticated_def)

lemma isAuthenticated_valid:
  "map_of (cookies req) ACCESS_TOKEN = Some t \<Longrightarrow> verifyJWTToken e t = Valid \<Longrightarrow>
   isAuthenticated e req =
     (\<lparr>authenticated = True, needsRefresh = False, auth_newCookies = None\<rparr>, [])"
  by (simp add: isAuthenticated_def Valid_def)

lemma isAuthenticated_invalid:
  "map_of (cookies req) ACCESS_TOKEN = Some t \<Longrightarrow> verifyJWTToken e t = Invalid \<Longrightarrow>
   isAuthenticated e req =
     (\<lparr>authenticated = False, needsRefresh = False, auth_newCookies = None\<rparr>, [])"
  by (simp add: isAuthenticated_def Invalid_def)

lemma isAuthenticated_expired:
  "map_of (cookies req) ACCESS_TOKEN = Some t \<Longrightarrow> verifyJWTToken e t = Expired \<Longrightarrow>
   isAuthenticated e req =
     (let (refreshResult, calls) = attemptTokenRefresh e req in
      if success refreshResult
      then (\<lparr>authenticated = True, needsRefresh = True,
             auth_newCookies = newCookies refreshResult\<rparr>, calls)
      else (\<lparr>authenticated = False, needsRefresh = False, auth_newCookies = None\<rparr>, calls))"
  by (simp add: isAuthenticated_def Expired_def)

lemma attemptTokenRefresh_calls:
  "snd (attemptTokenRefresh e req) = [or_empty (cookie_header req)]"
  by (simp add: attemptTokenRefresh_def Let_def)

lemma attemptTokenRefresh_success:
  "success (fst (attemptTokenRefresh e req)) \<longleftrightarrow>
   (\<exists>r. fetch_refresh e (or_empty (cookie_header req)) = FetchResolved r \<and> ok r)"
  by (simp add: attemptTokenRefresh_def Let_def split: fetch_result.splits)

lemma middleware_unprotected:
  "\<not> isProtectedPage (pathname req) \<Longrightarrow> middleware e req = (NextContinue None, [])"
  by (simp add: middleware_def)

lemma middleware_protected:
  "isProtectedPage (pathname req) \<Longrightarrow>
   middleware e req =
     (let (authResult, calls) = isAuthenticated e req in
      if \<not> authenticated authResult then (NextRedirect ''/'', calls)
      else if needsRefresh authResult \<and> auth_newCookies authResult \<noteq> None
      then (NextContinue (auth_newCookies authResult), calls)
      else (NextContinue None, calls))"
  by (simp add: middleware_def)

lemma middleware_calls_isAuthenticated:
  "isProtectedPage (pathname req) \<Longrightarrow> snd (middleware e req) = snd (isAuthenticated e req)"
  by (cases "isAuthenticated e req") (simp add: middleware_protected)

lemma middleware_admit_iff:
  "isProtectedPage (pathname req) \<Longrightarrow>
   is_admit (fst (middleware e req)) \<longleftrightarrow> authenticated (fst (isAuthenticated e req))"
  by (cases "isAuthenticated e req") (simp add: middleware_protected)

lemma middleware_deny_is_redirect:
  "isProtectedPage (pathname req) \<Longrightarrow> \<not> authenticated (fst (isAuthenticated e req)) \<Longrightarrow>
   fst (middleware e req) = NextRedirect ''/''"
  by (cases "isAuthenticated e req") (simp add: middleware_protected)

text \<open>
  On a protected page an expired access credential leads to exactly one call of the
  refresh route, which carries the request's cookie header.
\<close>

lemma middleware_expired_calls_once:
  assumes "isProtectedPage (pathname req)" and "map_of (cookies req) ACCESS_TOKEN = Some t"
    and "verifyJWTToken e t = Expired"
  shows "snd (middleware e req) = [or_empty (cookie_header req)]"
  using assms attemptTokenRefresh_calls [of e req]
  by (auto simp add: middleware_calls_isAuthenticated isAuthenticated_expired split: prod.splits)

text \<open>Whoever is authenticated holds a valid credential or had an expired one renewed.\<close>

lemma isAuthenticated_evidence:
  assumes "authenticated (fst (isAuthenticated e req))"
  shows "\<exists>tok. map_of (cookies req) ACCESS_TOKEN = Some tok \<and>
           (verifyJWTToken e tok = Valid \<or>
            (verifyJWTToken e tok = Expired \<and>
             (\<exists>r. fetch_refresh e (or_empty (cookie_header req)) = FetchResolved r \<and> ok r)))"
proof (cases "map_of (cookies req) ACCESS_TOKEN")
  case None
  with assms show ?thesis by (simp add: isAuthenticated_missing)
next
  case (Some tok)
  consider "verifyJWTToken e tok = Valid" | "verifyJWTToken e tok = Expired"
    | "verifyJWTToken e tok = Invalid"
    using verifyJWTToken_cases by blast
  then show ?thesis
  proof cases
    case 1
    with Some show ?thesis by simp
  next
    case 2
    with Some assms have "success (fst (attemptTokenRefresh e req))"
      by (simp add: isAuthenticated_expired split: prod.splits if_splits)
    with Some 2 show ?thesis by (simp add: attemptTokenRefresh_success)
  next
    case 3
    with Some assms show ?thesis by (simp add: isAuthenticated_invalid)
  qed
qed

subsection \<open>Protected endpoints\<close>

text \<open>
  C1. The claim: a request for a protected endpoint (an entry of
  \<open>PROTECTED_API_ROUTES\<close>, such as \<open>/api/users/profile\<close>) whose access credential is
  missing, invalid, or expired with a failed renewal is rejected with an unauthorized
  status. The gate consults \<open>PROTECTED_PATHS\<close> only: whatever the credentials and the
  outside world are, a request for \<open>/api/users/profile\<close> continues to the handler, no
  renewal is attempted, and the response is not an unauthorized one; the same holds for
  each of the four entries of the list.
\<close>

theorem protected_endpoint_is_admitted_unchecked:
  "middleware e (req\<lparr>pathname := ''/api/users/profile''\<rparr>) = (NextContinue None, []) \<and>
   \<not> is_unauthorized (fst (middleware e (req\<lparr>pathname := ''/api/users/profile''\<rparr>))) \<and>
   list_all (\<lambda>p. middleware e (req\<lparr>pathname := p\<rparr>) = (NextContinue None, []))
     PROTECTED_API_ROUTES"
  by (simp add: middleware_def isProtectedPage_def PROTECTED_PATHS_def PROTECTED_API_ROUTES_def
      startsWith_def)

subsection \<open>The expiry comparison\<close>

text \<open>
  With the library's own expiry check at the same clock, the verifier has three answers
  for a credential whose signature verifies and that carries an expiry claim.
\<close>

lemma verifyJWTToken_with_library:
  assumes "jwtVerify e = jwtVerify_library decode (currentTime e)"
    and "decode token = Some tok" and "signature_verifies tok" and "expiry_claim tok = Some x"
  shows "verifyJWTToken e token =
           (if x \<le> currentTime e then Expired else if x = 0 then Invalid else Valid)"
  using assms
  by (simp add: verifyJWTToken_def jwtVerify_library_def Valid_def Expired_def Invalid_def)

text \<open>
  C3. For every access credential whose signature verifies and that carries an expiry
  claim, the verifier, with the library checking the expiry at the verifier's clock,
  answers Expired exactly when the current time is greater than or equal to the expiry
  claim; a credential whose expiry claim equals the current time is Expired, not Valid.
\<close>

theorem verifier_expired_iff_now_reaches_exp:
  assumes "jwtVerify e = jwtVerify_library decode (currentTime e)"
    and "decode token = Some tok" and "signature_verifies tok" and "expiry_claim tok = Some x"
  shows "(verifyJWTToken e token = Expired \<longleftrightarrow> x \<le> currentTime e) \<and>
         (x = currentTime e \<longrightarrow>
            verifyJWTToken e token = Expired \<and> verifyJWTToken e token \<noteq> Valid)"
  using verifyJWTToken_with_library [OF assms]
  by (simp add: verify_result_distinct)

theorem verifier_expired_iff_now_reaches_exp_witness:
  "jwtVerify
     \<lparr>currentTime = 1000,
        jwtVerify = jwtVerify_library
          (decode_answers (Some \<lparr>signature_verifies = True, expiry_claim = Some 1000\<rparr>)) 1000,
        fetch_refresh = fetch_answers FetchThrows\<rparr>
     = jwtVerify_library
         (decode_answers (Some \<lparr>signature_verifies = True, expiry_claim = Some 1000\<rparr>))
         (currentTime
            \<lparr>currentTime = 1000,
               jwtVerify = jwtVerify_library
                 (decode_answers (Some \<lparr>signature_verifies = True, expiry_claim = Some 1000\<rparr>))
                 1000,
               fetch_refresh = fetch_answers FetchThrows\<rparr>) \<and>
   decode_answers (Some \<lparr>signature_verifies = True, expiry_claim = Some 1000\<rparr>) ''token''
     = Some \<lparr>signature_verifies = True, expiry_claim = Some 1000\<rparr> \<and>
   signature_verifies \<lparr>signature_verifies = True, expiry_claim = Some 1000\<rparr> \<and>
   expiry_claim \<lparr>signature_verifies = True, expiry_claim = Some 1000\<rparr> = Some 1000 \<and>
   verifyJWTToken
     \<lparr>currentTime = 1000,
        jwtVerify = jwtVerify_library
          (decode_answers (Some \<lparr>signature_verifies = True, expiry_claim = Some 1000\<rparr>)) 1000,
        fetch_refresh = fetch_answers FetchThrows\<rparr> ''token'' = Expired \<and>
   verifyJWTToken
     \<lparr>currentTime = 1000,
        jwtVerify = jwtVerify_library
          (decode_answers (Some \<lparr>signature_verifies = True, expiry_claim = Some 1000\<rparr>)) 1000,
        fetch_refresh = fetch_answers FetchThrows\<rparr> ''token'' \<noteq> Valid"
  using verifier_expired_iff_now_reaches_exp
    [of "\<lparr>currentTime = 1000,
          jwtVerify = jwtVerify_library
            (decode_answers (Some \<lparr>signature_verifies = True, expiry_claim = Some 1000\<rparr>)) 1000,
          fetch_refresh = fetch_answers FetchThrows\<rparr>"
        "decode_answers (Some \<lparr>signature_verifies = True, expiry_claim = Some 1000\<rparr>)"
        "''token''" "\<lparr>signature_verifies = True, expiry_claim = Some 1000\<rparr>" 1000]
  by (simp add: decode_answers_def verify_result_distinct)

subsection \<open>Paths the gate lets through\<close>

text \<open>
  C4. Every path of the public-endpoint allow-list, and every path that starts with an
  entry of it, is not classified as protected and is admitted, whatever the credentials
  are; no renewal is attempted. \<open>/api/users/login\<close> is such a path.
\<close>

theorem public_endpoint_admitted:
  assumes "\<exists>pub\<in>set PUBLIC_API_ROUTES. startsWith (pathname req) pub"
  shows "\<not> isProtectedPage (pathname req) \<and> middleware e req = (NextContinue None, [])"
proof -
  from assms obtain pub where "pub \<in> set PUBLIC_API_ROUTES" and "startsWith (pathname req) pub"
    by blast
  then have "prefix ''/api'' pub" and "prefix pub (pathname req)"
    using public_api_routes_under_api by (simp_all add: startsWith_iff_prefix)
  then have "startsWith (pathname req) ''/api''"
    unfolding startsWith_iff_prefix by (rule prefix_order.trans)
  then have "\<not> isProtectedPage (pathname req)"
    by (rule api_not_protected)
  then show ?thesis
    by (simp add: middleware_def)
qed

theorem public_endpoint_admitted_witness:
  "(\<exists>pub\<in>set PUBLIC_API_ROUTES.
      startsWith (pathname \<lparr>pathname = ''/api/users/login'', cookies = [],
                            cookie_header = None\<rparr>) pub) \<and>
   \<not> isProtectedPage (pathname \<lparr>pathname = ''/api/users/login'', cookies = [],
                                cookie_header = None\<rparr>) \<and>
   middleware \<lparr>currentTime = 0, jwtVerify = jwt_answers (JoseThrows NonObject),
               fetch_refresh = fetch_answers FetchThrows\<rparr>
     \<lparr>pathname = ''/api/users/login'', cookies = [], cookie_header = None\<rparr>
     = (NextContinue None, [])"
  using public_endpoint_admitted
    [of "\<lparr>pathname = ''/api/users/login'', cookies = [], cookie_header = None\<rparr>"
        "\<lparr>currentTime = 0, jwtVerify = jwt_answers (JoseThrows NonObject),
          fetch_refresh = fetch_answers FetchThrows\<rparr>"]
  by (simp add: PUBLIC_API_ROUTES_def startsWith_def)

text \<open>
  C5. Every request whose path starts with no entry of the protected list is admitted,
  whatever its credentials and whatever the outside world answers; no renewal is
  attempted. The path \<open>/\<close> with no cookie at all is admitted.
\<close>

theorem unprotected_path_admitted:
  assumes "\<forall>pp\<in>set PROTECTED_PATHS. \<not> startsWith (pathname req) pp"
  shows "middleware e req = (NextContinue None, [])"
  using assms by (simp add: middleware_def isProtectedPage_iff)

theorem unprotected_path_admitted_witness:
  "\<not> (\<exists>pp\<in>set PROTECTED_PATHS.
        startsWith (pathname \<lparr>pathname = ''/'', cookies = [], cookie_header = None\<rparr>) pp) \<and>
   middleware \<lparr>currentTime = 0, jwtVerify = jwt_answers (JoseThrows NonObject),
               fetch_refresh = fetch_answers FetchThrows\<rparr>
     \<lparr>pathname = ''/'', cookies = [], cookie_header = None\<rparr> = (NextContinue None, [])"
  using unprotected_path_admitted
    [of "\<lparr>pathname = ''/'', cookies = [], cookie_header = None\<rparr>"
        "\<lparr>currentTime = 0, jwtVerify = jwt_answers (JoseThrows NonObject),
          fetch_refresh = fetch_answers FetchThrows\<rparr>"]
  by (simp add: PROTECTED_PATHS_def startsWith_def)

subsection \<open>When the renewer is called\<close>

text \<open>
  C6. For every request whose access credential is missing, or is verified with a result
  other than Expired (that is, Valid or Invalid), the gate makes no renewal call; and a
  request whose access credential is Valid is admitted with no renewal call and no new
  credentials.
\<close>

theorem renewal_only_after_expired:
  assumes "map_of (cookies req) ACCESS_TOKEN = None \<or>
           (\<exists>t. map_of (cookies req) ACCESS_TOKEN = Some t \<and> verifyJWTToken e t \<noteq> Expired)"
  shows "snd (middleware e req) = [] \<and>
         (\<forall>t. map_of (cookies req) ACCESS_TOKEN = Some t \<and> verifyJWTToken e t = Valid \<longrightarrow>
              middleware e req = (NextContinue None, []))"
proof -
  have no_call: "snd (isAuthenticated e req) = []"
  proof (cases "map_of (cookies req) ACCESS_TOKEN")
    case None
    then show ?thesis by (simp add: isAuthenticated_missing)
  next
    case (Some t)
    with assms have "verifyJWTToken e t \<noteq> Expired" by simp
    with verifyJWTToken_cases [of e t]
    have "verifyJWTToken e t = Valid \<or> verifyJWTToken e t = Invalid" by blast
    with Some show ?thesis
      by (auto simp add: isAuthenticated_valid isAuthenticated_invalid)
  qed
  have calls: "snd (middleware e req) = []"
  proof (cases "isProtectedPage (pathname req)")
    case True
    with no_call show ?thesis by (simp add: middleware_calls_isAuthenticated)
  next
    case False
    then show ?thesis by (simp add: middleware_unprotected)
  qed
  have admitted: "middleware e req = (NextContinue None, [])"
    if "map_of (cookies req) ACCESS_TOKEN = Some t" and "verifyJWTToken e t = Valid" for t
    using that by (simp add: middleware_def isAuthenticated_valid)
  from calls admitted show ?thesis by blast
qed

theorem renewal_only_after_expired_witness:
  "(map_of (cookies \<lparr>pathname = ''/dashboard'', cookies = [(''access_token'', ''token'')],
                     cookie_header = Some ''access_token=token''\<rparr>) ACCESS_TOKEN = None \<or>
    (\<exists>t. map_of (cookies \<lparr>pathname = ''/dashboard'', cookies = [(''access_token'', ''token'')],
                          cookie_header = Some ''access_token=token''\<rparr>) ACCESS_TOKEN = Some t \<and>
         verifyJWTToken \<lparr>currentTime = 1000,
                         jwtVerify = jwt_answers (JoseVerified \<lparr>exp = Some 2000\<rparr>),
                         fetch_refresh = fetch_answers FetchThrows\<rparr> t \<noteq> Expired)) \<and>
   verifyJWTToken \<lparr>currentTime = 1000,
                   jwtVerify = jwt_answers (JoseVerified \<lparr>exp = Some 2000\<rparr>),
                   fetch_refresh = fetch_answers FetchThrows\<rparr> ''token'' = Valid \<and>
   middleware \<lparr>currentTime = 1000,
               jwtVerify = jwt_answers (JoseVerified \<lparr>exp = Some 2000\<rparr>),
               fetch_refresh = fetch_answers FetchThrows\<rparr>
     \<lparr>pathname = ''/dashboard'', cookies = [(''access_token'', ''token'')],
        cookie_header = Some ''access_token=token''\<rparr> = (NextContinue None, [])"
  using renewal_only_after_expired
    [of "\<lparr>pathname = ''/dashboard'', cookies = [(''access_token'', ''token'')],
          cookie_header = Some ''access_token=token''\<rparr>"
        "\<lparr>currentTime = 1000, jwtVerify = jwt_answers (JoseVerified \<lparr>exp = Some 2000\<rparr>),
          fetch_refresh = fetch_answers FetchThrows\<rparr>"]
  by (simp add: ACCESS_TOKEN_def verifyJWTToken_def jwt_answers_def Valid_def Expired_def)

subsection \<open>Failing closed\<close>

text \<open>
  Whenever the library throws anything but its expiry error (a decode error, a signature
  mismatch), or returns a payload with no expiry claim, the verifier answers Invalid,
  which is neither Valid nor Expired.
\<close>

lemma verifyJWTToken_fails_closed:
  assumes "(\<exists>err. jwtVerify e t = JoseThrows err \<and> \<not> is_jwt_expired_error err) \<or>
           (\<exists>p. jwtVerify e t = JoseVerified p \<and> exp p = None)"
  shows "verifyJWTToken e t = Invalid \<and> verifyJWTToken e t \<noteq> Valid \<and>
         verifyJWTToken e t \<noteq> Expired"
proof -
  from assms have "verifyJWTToken e t = Invalid"
    by (auto simp add: verifyJWTToken_def Invalid_def)
  then show ?thesis
    by (simp add: verify_result_distinct)
qed

text \<open>
  On a protected page a credential the verifier finds Invalid ends in the redirect to the
  login page, with no renewal call.
\<close>

lemma invalid_credential_redirects:
  assumes "isProtectedPage (pathname req)" and "map_of (cookies req) ACCESS_TOKEN = Some t"
    and "verifyJWTToken e t = Invalid"
  shows "middleware e req = (NextRedirect ''/'', [])"
  using assms by (simp add: middleware_protected isAuthenticated_invalid)

text \<open>
  On a protected page the gate's answer is the redirect to the login page, or an
  admission of a request whose access credential is Valid, or Expired with a renewal
  call that resolved to a status in 200..299.
\<close>

lemma protected_page_answer:
  assumes prot: "isProtectedPage (pathname req)"
  shows "fst (middleware e req) = NextRedirect ''/'' \<or>
          (is_admit (fst (middleware e req)) \<and>
           (\<exists>tok. map_of (cookies req) ACCESS_TOKEN = Some tok \<and>
              (verifyJWTToken e tok = Valid \<or>
               (verifyJWTToken e tok = Expired \<and>
                (\<exists>r. fetch_refresh e (or_empty (cookie_header req)) = FetchResolved r \<and>
                     ok r)))))"
proof (cases "authenticated (fst (isAuthenticated e req))")
  case True
  with prot isAuthenticated_evidence [OF True] show ?thesis
    by (simp add: middleware_admit_iff)
next
  case False
  with prot show ?thesis by (simp add: middleware_deny_is_redirect)
qed

text \<open>
  C7. The claim: the verifier fails closed, and no fault inside verification or renewal
  ends in an admission. An evaluation of the code at a renewal fault. The request is for
  \<open>/dashboard\<close>, its access credential is Expired and not Valid, and the issuing service
  answers the renewal with status 201. The proxy builds its error body, under that same
  status and with no cookie; the gate reads the status as a success and admits the
  request, with whatever header the platform renders of no cookie at all.
\<close>

theorem renewal_fault_is_admitted:
  "verifyJWTToken
     \<lparr>currentTime = 1000,
        jwtVerify = jwt_answers (JoseThrows (ErrorObject (CodeString ''ERR_JWT_EXPIRED''))),
        fetch_refresh = refresh_route (axios_answers (AxiosResolved 201 None)) get_set_cookie\<rparr>
     ''t'' = Expired \<and>
   json_body (POST (axios_answers (AxiosResolved 201 None)) (Some ''access_token=t''))
     = RefreshErrorStatus 201 \<and>
   json_cookies (POST (axios_answers (AxiosResolved 201 None)) (Some ''access_token=t'')) = [] \<and>
   middleware
     \<lparr>currentTime = 1000,
        jwtVerify = jwt_answers (JoseThrows (ErrorObject (CodeString ''ERR_JWT_EXPIRED''))),
        fetch_refresh = refresh_route (axios_answers (AxiosResolved 201 None)) get_set_cookie\<rparr>
     \<lparr>pathname = ''/dashboard'', cookies = [(''access_token'', ''t'')],
        cookie_header = Some ''access_token=t''\<rparr>
     = (NextContinue (or_undefined (get_set_cookie [])), [''access_token=t''])"
  by (cases "or_undefined (get_set_cookie [])")
     (simp_all add: middleware_def isProtectedPage_def PROTECTED_PATHS_def startsWith_def
      isAuthenticated_def ACCESS_TOKEN_def verifyJWTToken_def jwt_answers_def
      attemptTokenRefresh_def or_empty_def refresh_route_def POST_def POST_try_def
      axios_answers_def NextResponse_json_def ok_def Let_def Expired_def)

subsection \<open>Protected pages are matched by prefix\<close>

text \<open>
  C9. Every path that starts, character by character, with an entry of the protected
  pages list is treated as a protected page: it is admitted exactly when the request is
  authenticated, and a request for it with no access credential is redirected to the
  login page. \<open>/profilephoto\<close> is such a path, since it starts with \<open>/profile\<close>.
\<close>

theorem protected_page_by_raw_prefix:
  assumes "\<exists>pp\<in>set PROTECTED_PATHS. startsWith (pathname req) pp"
  shows "isProtectedPage (pathname req) \<and>
         (is_admit (fst (middleware e req)) \<longleftrightarrow> authenticated (fst (isAuthenticated e req))) \<and>
         (map_of (cookies req) ACCESS_TOKEN = None \<longrightarrow>
            middleware e req = (NextRedirect ''/'', []))"
proof -
  from assms have prot: "isProtectedPage (pathname req)"
    by (simp add: isProtectedPage_iff)
  moreover from prot
  have "is_admit (fst (middleware e req)) \<longleftrightarrow> authenticated (fst (isAuthenticated e req))"
    by (rule middleware_admit_iff)
  moreover from prot have "middleware e req = (NextRedirect ''/'', [])"
    if "map_of (cookies req) ACCESS_TOKEN = None"
    using that by (simp add: middleware_protected isAuthenticated_missing)
  ultimately show ?thesis by blast
qed

theorem protected_page_by_raw_prefix_witness:
  "(\<exists>pp\<in>set PROTECTED_PATHS.
      startsWith (pathname \<lparr>pathname = ''/profilephoto'', cookies = [],
                            cookie_header = None\<rparr>) pp) \<and>
   isProtectedPage ''/profilephoto'' \<and>
   map_of (cookies \<lparr>pathname = ''/profilephoto'', cookies = [], cookie_header = None\<rparr>)
     ACCESS_TOKEN = None \<and>
   middleware \<lparr>currentTime = 0, jwtVerify = jwt_answers (JoseThrows NonObject),
               fetch_refresh = fetch_answers FetchThrows\<rparr>
     \<lparr>pathname = ''/profilephoto'', cookies = [], cookie_header = None\<rparr>
     = (NextRedirect ''/'', [])"
  using protected_page_by_raw_prefix
    [of "\<lparr>pathname = ''/profilephoto'', cookies = [], cookie_header = None\<rparr>"
        "\<lparr>currentTime = 0, jwtVerify = jwt_answers (JoseThrows NonObject),
          fetch_refresh = fetch_answers FetchThrows\<rparr>"]
  by (simp add: PROTECTED_PATHS_def startsWith_def)

subsection \<open>Renewal failure\<close>

text \<open>
  A renewal call that throws, or resolves to a status outside 200..299, fails, and the
  request for the protected page is redirected after that single call.
\<close>

lemma failed_renewal_redirects:
  assumes "isProtectedPage (pathname req)" and "map_of (cookies req) ACCESS_TOKEN = Some t"
    and "verifyJWTToken e t = Expired"
    and "fetch_refresh e (or_empty (cookie_header req)) = FetchThrows \<or>
         (\<exists>r. fetch_refresh e (or_empty (cookie_header req)) = FetchResolved r \<and> \<not> ok r)"
  shows "middleware e req = (NextRedirect ''/'', [or_empty (cookie_header req)])"
  using assms
  by (auto simp add: middleware_protected isAuthenticated_expired attemptTokenRefresh_def Let_def)

text \<open>The proxy answers a rejected call of the issuing service with status 500.\<close>

lemma POST_rejected:
  "axios_post (or_empty request_cookie) = AxiosRejected \<Longrightarrow>
   POST axios_post request_cookie =
     \<lparr>json_status = 500, json_body = RefreshErrorThrown AxiosFault, json_cookies = []\<rparr>"
  by (simp add: POST_def POST_try_def)

text \<open>
  C8. The claim: every non-success answer of the issuing service makes the renewal fail,
  and the failure leads to the denial of the request's class, an unauthorized status for
  a protected endpoint. Two evaluations of the code. A request for the protected endpoint
  \<open>/api/users/profile\<close> with an expired access credential, while the refresh route
  answers 401, is admitted and no renewal is attempted. And when the issuing service
  answers the proxy with status 201, the proxy builds its error body under that same
  status, the gate reads the status as a success, and the request for \<open>/dashboard\<close>
  with an expired access credential is admitted.
\<close>

theorem renewal_failure_not_denied:
  "middleware
     \<lparr>currentTime = 1000,
        jwtVerify = jwt_answers (JoseThrows (ErrorObject (CodeString ''ERR_JWT_EXPIRED''))),
        fetch_refresh = fetch_answers (FetchResolved \<lparr>status = 401, set_cookie = None\<rparr>)\<rparr>
     \<lparr>pathname = ''/api/users/profile'', cookies = [(''access_token'', ''t'')],
        cookie_header = Some ''access_token=t''\<rparr> = (NextContinue None, []) \<and>
   POST (axios_answers (AxiosResolved 201 None)) (Some ''access_token=t'') =
     \<lparr>json_status = 201, json_body = RefreshErrorStatus 201, json_cookies = []\<rparr> \<and>
   is_admit (fst (middleware
     \<lparr>currentTime = 1000,
        jwtVerify = jwt_answers (JoseThrows (ErrorObject (CodeString ''ERR_JWT_EXPIRED''))),
        fetch_refresh = refresh_route (axios_answers (AxiosResolved 201 None)) get_set_cookie\<rparr>
     \<lparr>pathname = ''/dashboard'', cookies = [(''access_token'', ''t'')],
        cookie_header = Some ''access_token=t''\<rparr>))"
  by (simp add: middleware_def isProtectedPage_def PROTECTED_PATHS_def startsWith_def
      isAuthenticated_def ACCESS_TOKEN_def verifyJWTToken_def jwt_answers_def
      attemptTokenRefresh_def or_empty_def refresh_route_def POST_def POST_try_def
      axios_answers_def NextResponse_json_def ok_def Let_def)

section \<open>Properties of the renewal proxy\<close>

subsection \<open>Auxiliary facts\<close>

lemma split_fst: "fst (split sep s) = takeWhile (\<lambda>c. c \<noteq> sep) s"
  by (induction s) (auto split: prod.splits)

lemma split_snd:
  "snd (split sep s) =
     (if sep \<in> set s
      then (let r = drop 1 (dropWhile (\<lambda>c. c \<noteq> sep) s) in fst (split sep r) # snd (split sep r))
      else [])"
  by (induction s) (auto split: prod.splits simp add: Let_def)

lemma second_split:
  "second (snd (split sep s)) =
     (if sep \<in> set s
      then Some (takeWhile (\<lambda>c. c \<noteq> sep) (drop 1 (dropWhile (\<lambda>c. c \<noteq> sep) s)))
      else None)"
  by (subst split_snd) (simp add: second_def Let_def split_fst)

lemma set_option_not_carried_over: "\<not> carried_over a \<Longrightarrow> set_option co a = co"
  by (cases "split CHR ''='' (trim a)")
     (use split_fst [of "CHR ''=''" "trim a"] in
       \<open>simp add: set_option_def carried_over_def attribute_key_def before_first_equals_def\<close>)

lemma foldl_set_option_filter:
  "foldl set_option co (filter carried_over as) = foldl set_option co as"
  by (induction as arbitrary: co) (simp_all add: set_option_not_carried_over)

lemma forward_cookie_eq:
  "forward_cookie h =
     (if CHR ''='' \<in> set (first_segment h) then Inr (reemitted h) else Inl TypeErrorFault)"
proof -
  obtain cnv options where s1: "split CHR '';'' h = (cnv, options)"
    by (cases "split CHR '';'' h")
  obtain name rest where s2: "split CHR ''='' cnv = (name, rest)"
    by (cases "split CHR ''='' cnv")
  from s1 have cnv: "cnv = first_segment h" and options: "options = attributes h"
    using split_fst [of "CHR '';''" h] by (simp_all add: first_segment_def attributes_def)
  from s2 have name: "name = before_first_equals cnv"
    using split_fst [of "CHR ''=''" cnv] by (simp add: before_first_equals_def)
  from s2 have rest: "second rest =
      (if CHR ''='' \<in> set cnv then Some (between_first_and_second_equals cnv) else None)"
    using second_split [of "CHR ''=''" cnv]
    by (simp add: between_first_and_second_equals_def after_first_equals_def)
  show ?thesis
    unfolding forward_cookie_def s1 
    by (simp add: s2 rest Let_def reemitted_def foldl_set_option_filter name cnv [symmetric] options [symmetric])
qed


lemma forward_cookies_some_without_equals:
  "\<exists>h\<in>set hs. CHR ''='' \<notin> set (first_segment h) \<Longrightarrow>
   forward_cookies hs jar = Inl TypeErrorFault"
  by (induction hs arbitrary: jar) (auto simp add: forward_cookie_eq)


lemma POST_header_without_equals:
  assumes "axios_post (or_empty request_cookie) = AxiosResolved 200 (Some hs)"
    and "\<exists>h\<in>set hs. CHR ''='' \<notin> set (first_segment h)"
  shows "POST axios_post request_cookie =
           \<lparr>json_status = 500, json_body = RefreshErrorThrown TypeErrorFault, json_cookies = []\<rparr>"
  using assms
  by (simp add: POST_def POST_try_def NextResponse_json_def forward_cookies_some_without_equals)





lemma split_no_sep: "sep \<notin> set s \<Longrightarrow> split sep s = (s, [])"
  by (induction s) auto

lemma split_append_sep:
  "sep \<notin> set p \<Longrightarrow> split sep (p @ sep # r) = (p, fst (split sep r) # snd (split sep r))"
  by (induction p) (auto split: prod.splits)

lemma split_key_value:
  "sep \<notin> set k \<Longrightarrow> sep \<notin> set v \<Longrightarrow> split sep (k @ sep # v) = (k, [v])"
  by (simp add: split_append_sep split_no_sep)

lemma split_segments:
  "CHR '';'' \<notin> set x \<Longrightarrow> \<forall>a\<in>set as. CHR '';'' \<notin> set (f a) \<Longrightarrow>
   split CHR '';'' (x @ concat (map (\<lambda>a. ''; '' @ f a) as)) = (x, map (\<lambda>a. CHR '' '' # f a) as)"
proof (induction as arbitrary: x)
  case Nil
  then show ?case by (simp add: split_no_sep)
next
  case (Cons a as)
  have "split CHR '';'' ((CHR '' '' # f a) @ concat (map (\<lambda>a. ''; '' @ f a) as)) =
        (CHR '' '' # f a, map (\<lambda>a. CHR '' '' # f a) as)"
    using Cons.prems by (intro Cons.IH) auto
  then show ?case
    using Cons.prems(1) split_append_sep [of "CHR '';''" x]
    by simp
qed

lemma trim_leading_space: "is_space c \<Longrightarrow> trim (c # s) = trim s"
  by (simp add: trim_def)

lemma trim_keep:
  assumes "\<not> is_space c" and "s = [] \<or> \<not> is_space (last s)"
    and "\<not> is_space (last (c # k))"
  shows "trim (c # k @ s) = c # k @ s"
proof -
  have "\<not> is_space (last (c # k @ s))"
    using assms(2,3) by (cases "s = []") simp_all
  then have "dropWhile is_space (rev (c # k @ s)) = rev (c # k @ s)"
    by (metis dropWhile_eq_self_iff hd_rev list.distinct(1) rev_is_Nil_conv)
  with assms(1) show ?thesis
    by (simp add: trim_def)
qed

lemma space_is_space: "is_space CHR '' ''"
  by (simp add: is_space_def)

lemma toLowerCase_keys:
  "toLowerCase ''HttpOnly'' = ''httponly''"
  "toLowerCase ''Secure'' = ''secure''"
  "toLowerCase ''SameSite'' = ''samesite''"
  "toLowerCase ''Max-Age'' = ''max-age''"
  "toLowerCase ''Path'' = ''path''"
  by (simp_all add: toLowerCase_def lower_char_def char_of_eq_iff)

lemma set_option_HttpOnly: "set_option co '' HttpOnly'' = co\<lparr>httpOnly := Some True\<rparr>"
  by (simp add: set_option_def trim_def is_space_def toLowerCase_keys)

lemma set_option_Secure: "set_option co '' Secure'' = co\<lparr>secure := Some True\<rparr>"
  by (simp add: set_option_def trim_def is_space_def toLowerCase_keys)

lemma trim_attribute:
  assumes "plain s" and "\<not> is_space c" 
  shows "trim (CHR '' '' # c # k @ CHR ''='' # s) = c # k @ CHR ''='' # s"
proof -
  have "trim (c # (k @ ''='') @ s) = c # (k @ ''='') @ s"
    using assms by (intro trim_keep) (simp_all add: plain_def is_space_def)
  then show ?thesis
    by (simp add: trim_leading_space space_is_space)
qed

lemma toLowerCase_Nil_iff: "toLowerCase v = [] \<longleftrightarrow> v = []"
  by (simp add: toLowerCase_def)

lemma set_option_key_value:
  assumes "trim option = k @ CHR ''='' # v" and "CHR ''='' \<notin> set k" and "CHR ''='' \<notin> set v"
  shows "set_option co option =
     (if toLowerCase k = ''httponly'' then co\<lparr>httpOnly := Some True\<rparr>
      else if toLowerCase k = ''secure'' then co\<lparr>secure := Some True\<rparr>
      else if toLowerCase k = ''samesite''
      then co\<lparr>sameSite := Some (if v = [] then ''lax'' else toLowerCase v)\<rparr>
      else if toLowerCase k = ''max-age'' then co\<lparr>maxAge := Some (parseInt (Some v))\<rparr>
      else if toLowerCase k = ''path'' then co\<lparr>path := Some v\<rparr>
      else co)"
  unfolding set_option_def assms(1)
  by (simp add: split_key_value assms(2,3) second_def toLowerCase_Nil_iff)

lemma set_option_SameSite:
  assumes "s \<noteq> []" and "plain s"
  shows "set_option co ('' SameSite='' @ s) = co\<lparr>sameSite := Some (toLowerCase s)\<rparr>"
proof -
  have "trim ('' SameSite='' @ s) = ''SameSite'' @ CHR ''='' # s"
    using trim_attribute [OF assms(2), of "CHR ''S''" "''ameSite''"] by (simp add: is_space_def)
  moreover have "CHR ''='' \<notin> set ''SameSite''" by simp
  moreover have "CHR ''='' \<notin> set s" using assms(2) by (simp add: plain_def)
  ultimately have "set_option co ('' SameSite='' @ s) =
      (if toLowerCase ''SameSite'' = ''httponly'' then co\<lparr>httpOnly := Some True\<rparr>
      else if toLowerCase ''SameSite'' = ''secure'' then co\<lparr>secure := Some True\<rparr>
      else if toLowerCase ''SameSite'' = ''samesite''
      then co\<lparr>sameSite := Some (if s = [] then ''lax'' else toLowerCase s)\<rparr>
      else if toLowerCase ''SameSite'' = ''max-age'' then co\<lparr>maxAge := Some (parseInt (Some s))\<rparr>
      else if toLowerCase ''SameSite'' = ''path'' then co\<lparr>path := Some s\<rparr>
      else co)"
    by (rule set_option_key_value)
  then show ?thesis
    using assms(1) by (simp add: toLowerCase_keys)
qed

lemma set_option_Path:
  assumes "plain p"
  shows "set_option co ('' Path='' @ p) = co\<lparr>path := Some p\<rparr>"
proof -
  have "trim ('' Path='' @ p) = ''Path'' @ CHR ''='' # p"
    using trim_attribute [OF assms, of "CHR ''P''" "''ath''"] by (simp add: is_space_def)
  moreover have "CHR ''='' \<notin> set ''Path''" by simp
  moreover have "CHR ''='' \<notin> set p" using assms by (simp add: plain_def)
  ultimately have "set_option co ('' Path='' @ p) =
      (if toLowerCase ''Path'' = ''httponly'' then co\<lparr>httpOnly := Some True\<rparr>
      else if toLowerCase ''Path'' = ''secure'' then co\<lparr>secure := Some True\<rparr>
      else if toLowerCase ''Path'' = ''samesite''
      then co\<lparr>sameSite := Some (if p = [] then ''lax'' else toLowerCase p)\<rparr>
      else if toLowerCase ''Path'' = ''max-age'' then co\<lparr>maxAge := Some (parseInt (Some p))\<rparr>
      else if toLowerCase ''Path'' = ''path'' then co\<lparr>path := Some p\<rparr>
      else co)"
    by (rule set_option_key_value)
  then show ?thesis
    by (simp add: toLowerCase_keys)
qed

lemma digit_not_special:
  assumes "is_digit 10 c"
  shows "\<not> is_space c" and "c \<noteq> CHR ''-''" and "c \<noteq> CHR ''+''" and "c \<noteq> CHR ''x''"
    and "c \<noteq> CHR ''X''" and "c \<noteq> CHR ''=''" and "c \<noteq> CHR '';''"
  using assms
  by (auto simp add: is_digit_def digit_value_def is_space_def Let_def split: if_splits)

text \<open>
  Above \<open>2^53\<close> the number read is rounded to a double: \<open>2^53 + 1\<close> is read as
  \<open>2^53\<close>.
\<close>

lemma bit_length_step:
  "bit_length (Suc 0) = Suc 0"
  "bit_length (numeral k) = Suc (bit_length (numeral k div 2))"
  by simp_all

lemma bit_length_example: "bit_length 9007199254740993 = 54"
  by (simp add: bit_length_step del: bit_length.simps)

lemma to_double_example: "to_double 9007199254740993 = Some 9007199254740992"
  by (simp add: to_double_def bit_length_example Let_def del: bit_length.simps)

lemma parseInt_rounds_to_double:
  "parseInt (Some ''9007199254740993'') = Num False 9007199254740992"
  by (simp add: parseInt_def is_space_def is_digit_def digit_value_def digits_value_def
      to_double_example Let_def del: bit_length.simps)

lemma takeWhile_all: "list_all P xs \<Longrightarrow> takeWhile P xs = xs"
  by (simp add: takeWhile_eq_all_conv list_all_iff)

lemma parseInt_digits:
  assumes "m \<noteq> []" and "list_all (is_digit 10) m" and "digits_value 10 m < 2 ^ 53"
  shows "parseInt (Some m) = Num False (digits_value 10 m)"
proof -
  obtain c r where m: "m = c # r" using assms(1) by (cases m) auto
  with assms(2) have c: "is_digit 10 c" and r: "list_all (is_digit 10) r" by simp_all
  show ?thesis
  proof (cases r)
    case Nil
    with m c assms(3) show ?thesis
      by (simp add: parseInt_def digit_not_special Let_def to_double_def)
  next
    case (Cons d r')
    with r have d: "is_digit 10 d" and r': "list_all (is_digit 10) r'" by simp_all
    from m Cons c d r' assms(3) show ?thesis
      by (simp add: parseInt_def digit_not_special Let_def takeWhile_all to_double_def)
  qed
qed

lemma plain_digits:
  assumes "m \<noteq> []" and "list_all (is_digit 10) m"
  shows "plain m"
proof -
  have "\<And>c. c \<in> set m \<Longrightarrow> is_digit 10 c"
    using assms(2) by (simp add: list_all_iff)
  moreover have "last m \<in> set m" using assms(1) by simp
  ultimately show ?thesis
    unfolding plain_def using digit_not_special by blast
qed

lemma set_option_MaxAge:
  assumes "m \<noteq> []" and "list_all (is_digit 10) m" and "digits_value 10 m < 2 ^ 53"
  shows "set_option co ('' Max-Age='' @ m) = co\<lparr>maxAge := Some (Num False (digits_value 10 m))\<rparr>"
proof -
  have p: "plain m" using assms(1,2) by (rule plain_digits)
  have "trim ('' Max-Age='' @ m) = ''Max-Age'' @ CHR ''='' # m"
    using trim_attribute [OF p, of "CHR ''M''" "''ax-Age''"] by (simp add: is_space_def)
  moreover have "CHR ''='' \<notin> set ''Max-Age''" by simp
  moreover have "CHR ''='' \<notin> set m" using p by (simp add: plain_def)
  ultimately have "set_option co ('' Max-Age='' @ m) =
      (if toLowerCase ''Max-Age'' = ''httponly'' then co\<lparr>httpOnly := Some True\<rparr>
      else if toLowerCase ''Max-Age'' = ''secure'' then co\<lparr>secure := Some True\<rparr>
      else if toLowerCase ''Max-Age'' = ''samesite''
      then co\<lparr>sameSite := Some (if m = [] then ''lax'' else toLowerCase m)\<rparr>
      else if toLowerCase ''Max-Age'' = ''max-age'' then co\<lparr>maxAge := Some (parseInt (Some m))\<rparr>
      else if toLowerCase ''Max-Age'' = ''path'' then co\<lparr>path := Some m\<rparr>
      else co)"
    by (rule set_option_key_value)
  then show ?thesis
    using parseInt_digits [OF assms] by (simp add: toLowerCase_keys)
qed

lemma carried_over_leading_space: "carried_over (CHR '' '' # a) = carried_over a"
  by (simp add: carried_over_def attribute_key_def trim_leading_space space_is_space)

lemma set_option_carry:
  "well_formed_attribute a \<Longrightarrow> set_option co (CHR '' '' # render_attribute a) = carry co a"
proof (cases a)
  case HttpOnly
  then show ?thesis using set_option_HttpOnly by simp
next
  case Secure
  then show ?thesis using set_option_Secure by simp
next
  case (SameSite s)
  assume "well_formed_attribute a"
  with SameSite show ?thesis using set_option_SameSite [of s co] by simp
next
  case (MaxAge m)
  assume "well_formed_attribute a"
  with MaxAge show ?thesis using set_option_MaxAge [of m co] by simp
next
  case (Path p)
  assume "well_formed_attribute a"
  with Path show ?thesis using set_option_Path [of p co] by simp
next
  case (Other x)
  assume "well_formed_attribute a"
  with Other show ?thesis
    by (simp add: set_option_not_carried_over carried_over_leading_space)
qed

lemma foldl_set_option_carry:
  "list_all well_formed_attribute as \<Longrightarrow>
   foldl set_option co (map (\<lambda>a. CHR '' '' # render_attribute a) as) = foldl carry co as"
  by (induction as arbitrary: co) (simp_all add: set_option_carry)

lemma render_attribute_no_semicolon:
  "well_formed_attribute a \<Longrightarrow> CHR '';'' \<notin> set (render_attribute a)"
proof (cases a)
  case (MaxAge m)
  assume "well_formed_attribute a"
  with MaxAge have "plain m" using plain_digits by simp
  with MaxAge show ?thesis by (simp add: plain_def)
qed (auto simp add: plain_def)

lemma forward_cookie_render:
  assumes "well_formed d"
  shows "forward_cookie (render d) = Inr (carried d)"
proof -
  let ?nv = "d_name d @ ''='' @ d_value d"
  have nv: "CHR '';'' \<notin> set ?nv"
    using assms by (simp add: well_formed_def plain_def)
  have attrs: "\<forall>a\<in>set (d_attributes d). CHR '';'' \<notin> set (render_attribute a)"
    using assms by (simp add: well_formed_def list_all_iff render_attribute_no_semicolon)
  have s1: "split CHR '';'' (render d) =
            (?nv, map (\<lambda>a. CHR '' '' # render_attribute a) (d_attributes d))"
    using split_segments [OF nv attrs] by (simp add: render_def)
  have s2: "split CHR ''='' ?nv = (d_name d, [d_value d])"
    using assms split_key_value [of "CHR ''=''" "d_name d" "d_value d"]
    by (simp add: well_formed_def plain_def)
  have opts: "foldl set_option no_options (map (\<lambda>a. CHR '' '' # render_attribute a) (d_attributes d))
              = foldl carry no_options (d_attributes d)"
    using assms by (simp add: well_formed_def foldl_set_option_carry)
  show ?thesis
    using assms
    by (simp add: forward_cookie_def s1 s2 second_def opts carried_def well_formed_def
        del: append.simps append_Cons append_Nil)
qed

lemma forward_cookies_render:
  "list_all well_formed ds \<Longrightarrow>
   forward_cookies (map render ds) jar = Inr (jar @ map carried ds)"
  by (induction ds arbitrary: jar) (simp_all add: forward_cookie_render)

lemma POST_render:
  assumes "axios_post (or_empty request_cookie) = AxiosResolved 200 (Some (map render ds))"
    and "list_all well_formed ds"
  shows "POST axios_post request_cookie =
           \<lparr>json_status = 200, json_body = RefreshDone, json_cookies = map carried ds\<rparr>"
  using assms by (simp add: POST_def POST_try_def NextResponse_json_def forward_cookies_render)

text \<open>
  A renewal through the proxy, seen from the gate: the request for a protected page with
  an expired access credential is admitted after one call, and the header set on the
  response is what the platform renders of the cookies the proxy set.
\<close>

lemma renewed_credentials_attached:
  assumes "isProtectedPage (pathname req)" and "map_of (cookies req) ACCESS_TOKEN = Some t"
    and "verifyJWTToken e t = Expired"
    and "fetch_refresh e = refresh_route axios_post get_set_cookie"
    and "200 \<le> json_status (POST axios_post (Some (or_empty (cookie_header req))))"
    and "json_status (POST axios_post (Some (or_empty (cookie_header req)))) \<le> 299"
  shows "middleware e req =
           (NextContinue (or_undefined (get_set_cookie
              (json_cookies (POST axios_post (Some (or_empty (cookie_header req))))))),
            [or_empty (cookie_header req)])"
proof (cases "or_undefined (get_set_cookie
              (json_cookies (POST axios_post (Some (or_empty (cookie_header req))))))")
  case None
  with assms show ?thesis
    by (simp add: middleware_protected isAuthenticated_expired attemptTokenRefresh_def
        refresh_route_def ok_def Let_def)
next
  case (Some s)
  with assms show ?thesis
    by (simp add: middleware_protected isAuthenticated_expired attemptTokenRefresh_def
        refresh_route_def ok_def Let_def)
qed

subsection \<open>What the proxy re-emits\<close>



subsection \<open>What of a directive is preserved\<close>

text \<open>
  C2, as the claim states it, fails: a directive with a \<open>Domain\<close> attribute and the
  policy \<open>SameSite=Strict\<close> is re-emitted without the domain and with the policy in
  lower case, exactly as the directive without the domain is.
\<close>

theorem unsupported_attribute_not_reemitted:
  "POST (axios_answers (AxiosResolved 200
           (Some [''access_token=abc; Domain=example.com; SameSite=Strict; HttpOnly''])))
        None =
     \<lparr>json_status = 200, json_body = RefreshDone,
        json_cookies =
          [\<lparr>cookie_name = ''access_token'', cookie_value = ''abc'',
             cookie_options = \<lparr>httpOnly = Some True, secure = None,
                                sameSite = Some ''strict'', maxAge = None, path = None\<rparr>\<rparr>]\<rparr> \<and>
   POST (axios_answers (AxiosResolved 200
           (Some [''access_token=abc; Domain=example.com; SameSite=Strict; HttpOnly''])))
        None =
   POST (axios_answers (AxiosResolved 200
           (Some [''access_token=abc; SameSite=strict; HttpOnly''])))
        None"
  by (simp add: POST_def POST_try_def NextResponse_json_def axios_answers_def or_empty_def
      forward_cookie_def second_def set_option_def no_options_def trim_def is_space_def
      toLowerCase_def lower_char_def char_of_eq_iff Let_def)

text \<open>
  C2, amended. When the issuing service answers 200 with directives that are well
  formed (name and value without \<open>=\<close>, \<open>;\<close> and outer white space; a max-age made of
  decimal digits that denote a number below \<open>2^53\<close>; a policy and a path without \<open>=\<close>,
  \<open>;\<close> and trailing white space), the proxy re-emits each of them with its name and
  value unchanged and with its attributes under the keys httponly, secure, samesite,
  max-age and path carried over: the two flags as true, the policy in lower case, the
  max-age as the number its digits denote, the path as written; an attribute under any
  other key is discarded. And for a protected page request with an expired access
  credential whose renewal goes through the proxy to such an answer, the gate admits the
  request after that single call, and the header on its response is what the platform
  renders of exactly those re-emitted cookies.
\<close>

theorem renewed_directives_carried_over:
  "(axios_post (or_empty request_cookie) = AxiosResolved 200 (Some (map render ds)) \<and>
    list_all well_formed ds
      \<longrightarrow> POST axios_post request_cookie =
            \<lparr>json_status = 200, json_body = RefreshDone, json_cookies = map carried ds\<rparr>) \<and>
   (isProtectedPage (pathname req) \<and> map_of (cookies req) ACCESS_TOKEN = Some t \<and>
    verifyJWTToken e t = Expired \<and>
    fetch_refresh e = refresh_route axios_post get_set_cookie \<and>
    axios_post (or_empty (cookie_header req)) = AxiosResolved 200 (Some (map render ds)) \<and>
    list_all well_formed ds
      \<longrightarrow> middleware e req =
            (NextContinue (or_undefined (get_set_cookie (map carried ds))),
             [or_empty (cookie_header req)]))"
proof (intro conjI impI)
  assume "axios_post (or_empty request_cookie) = AxiosResolved 200 (Some (map render ds)) \<and>
    list_all well_formed ds"
  then show "POST axios_post request_cookie =
            \<lparr>json_status = 200, json_body = RefreshDone, json_cookies = map carried ds\<rparr>"
    by (simp add: POST_render)
next
  assume h: "isProtectedPage (pathname req) \<and> map_of (cookies req) ACCESS_TOKEN = Some t \<and>
    verifyJWTToken e t = Expired \<and>
    fetch_refresh e = refresh_route axios_post get_set_cookie \<and>
    axios_post (or_empty (cookie_header req)) = AxiosResolved 200 (Some (map render ds)) \<and>
    list_all well_formed ds"
  then have "axios_post (or_empty (Some (or_empty (cookie_header req))))
               = AxiosResolved 200 (Some (map render ds))"
    by (simp add: or_empty_def)
  with h have post: "POST axios_post (Some (or_empty (cookie_header req))) =
            \<lparr>json_status = 200, json_body = RefreshDone, json_cookies = map carried ds\<rparr>"
    by (simp add: POST_render)
  from h post
    renewed_credentials_attached [of req t e axios_post get_set_cookie]
  show "middleware e req =
            (NextContinue (or_undefined (get_set_cookie (map carried ds))),
             [or_empty (cookie_header req)])"
    by simp
qed

theorem renewed_directives_carried_over_witness:
  "axios_answers (AxiosResolved 200
     (Some [''access_token=abc; HttpOnly; Max-Age=60; Path=/; SameSite=Lax; Secure; Domain=example.com'']))
     (or_empty (Some ''access_token=old''))
     = AxiosResolved 200
         (Some (map render
            [\<lparr>d_name = ''access_token'', d_value = ''abc'',
               d_attributes = [HttpOnly, MaxAge ''60'', Path ''/'', SameSite ''Lax'', Secure,
                               Other ''Domain=example.com'']\<rparr>])) \<and>
   list_all well_formed
     [\<lparr>d_name = ''access_token'', d_value = ''abc'',
        d_attributes = [HttpOnly, MaxAge ''60'', Path ''/'', SameSite ''Lax'', Secure,
                        Other ''Domain=example.com'']\<rparr>] \<and>
   POST (axios_answers (AxiosResolved 200
     (Some [''access_token=abc; HttpOnly; Max-Age=60; Path=/; SameSite=Lax; Secure; Domain=example.com''])))
     (Some ''access_token=old'') =
     \<lparr>json_status = 200, json_body = RefreshDone,
        json_cookies =
          [\<lparr>cookie_name = ''access_token'', cookie_value = ''abc'',
             cookie_options = \<lparr>httpOnly = Some True, secure = Some True,
                                sameSite = Some ''lax'', maxAge = Some (Num False 60),
                                path = Some ''/''\<rparr>\<rparr>]\<rparr> \<and>
   isProtectedPage (pathname \<lparr>pathname = ''/dashboard'', cookies = [(''access_token'', ''old'')],
                              cookie_header = Some ''access_token=old''\<rparr>) \<and>
   map_of (cookies \<lparr>pathname = ''/dashboard'', cookies = [(''access_token'', ''old'')],
                     cookie_header = Some ''access_token=old''\<rparr>) ACCESS_TOKEN = Some ''old'' \<and>
   verifyJWTToken
     \<lparr>currentTime = 1000,
        jwtVerify = jwt_answers (JoseThrows (ErrorObject (CodeString ''ERR_JWT_EXPIRED''))),
        fetch_refresh = refresh_route
          (axios_answers (AxiosResolved 200
             (Some [''access_token=abc; HttpOnly; Max-Age=60; Path=/; SameSite=Lax; Secure; Domain=example.com''])))
          (header_answers (Some ''access_token=abc; Path=/; Max-Age=60; HttpOnly; Secure; SameSite=lax''))\<rparr>
     ''old'' = Expired \<and>
   middleware
     \<lparr>currentTime = 1000,
        jwtVerify = jwt_answers (JoseThrows (ErrorObject (CodeString ''ERR_JWT_EXPIRED''))),
        fetch_refresh = refresh_route
          (axios_answers (AxiosResolved 200
             (Some [''access_token=abc; HttpOnly; Max-Age=60; Path=/; SameSite=Lax; Secure; Domain=example.com''])))
          (header_answers (Some ''access_token=abc; Path=/; Max-Age=60; HttpOnly; Secure; SameSite=lax''))\<rparr>
     \<lparr>pathname = ''/dashboard'', cookies = [(''access_token'', ''old'')],
        cookie_header = Some ''access_token=old''\<rparr>
     = (NextContinue (Some ''access_token=abc; Path=/; Max-Age=60; HttpOnly; Secure; SameSite=lax''),
        [''access_token=old''])"
  using renewed_directives_carried_over
    [of "axios_answers (AxiosResolved 200
     (Some [''access_token=abc; HttpOnly; Max-Age=60; Path=/; SameSite=Lax; Secure; Domain=example.com'']))"
        "Some ''access_token=old''"
        "[\<lparr>d_name = ''access_token'', d_value = ''abc'',
           d_attributes = [HttpOnly, MaxAge ''60'', Path ''/'', SameSite ''Lax'', Secure,
                           Other ''Domain=example.com'']\<rparr>]"
        "\<lparr>pathname = ''/dashboard'', cookies = [(''access_token'', ''old'')],
          cookie_header = Some ''access_token=old''\<rparr>"
        "''old''"
        "\<lparr>currentTime = 1000,
          jwtVerify = jwt_answers (JoseThrows (ErrorObject (CodeString ''ERR_JWT_EXPIRED''))),
          fetch_refresh = refresh_route
            (axios_answers (AxiosResolved 200
               (Some [''access_token=abc; HttpOnly; Max-Age=60; Path=/; SameSite=Lax; Secure; Domain=example.com''])))
            (header_answers (Some ''access_token=abc; Path=/; Max-Age=60; HttpOnly; Secure; SameSite=lax''))\<rparr>"
        "header_answers (Some ''access_token=abc; Path=/; Max-Age=60; HttpOnly; Secure; SameSite=lax'')"]
  by (simp add: axios_answers_def or_empty_def render_def well_formed_def plain_def
      carried_over_def attribute_key_def before_first_equals_def trim_def is_space_def
      toLowerCase_def lower_char_def char_of_eq_iff is_digit_def digit_value_def
      digits_value_def carried_def no_options_def
      isProtectedPage_def PROTECTED_PATHS_def startsWith_def ACCESS_TOKEN_def
      verifyJWTToken_def jwt_answers_def Expired_def header_answers_def or_undefined_def)

end
